theory Spec2Isabelle
  imports Complex_Main
begin

section \<open>Strings and names\<close>

text \<open>
  Go strings hold UTF-8. The functions of \<^verbatim>\<open>apl/var.go\<close> read a name rune by
  rune (\<^verbatim>\<open>for i, r := range s\<close>), search it for the glyph of package
  qualification and compare it with literals, so a name is modelled as the
  sequence of its code points. For well-formed UTF-8 the byte offsets that
  \<^verbatim>\<open>strings.Index\<close> returns fall on rune boundaries, and cutting the bytes
  there is cutting the rune sequence.
\<close>

type_synonym rune = nat
type_synonym gostring = "rune list"

definition arrow :: rune where "arrow = 0x2192"
definition quad :: rune where "quad = 0x2395"
definition alpha :: rune where "alpha = 0x237A"
definition omega :: rune where "omega = 0x2375"
definition newline :: rune where "newline = 0x0A"

text \<open>The reserved names \<^verbatim>\<open>"\<box>"\<close>, \<^verbatim>\<open>"\<box>IO"\<close> and \<^verbatim>\<open>"\<box>PP"\<close> (quad, then ASCII letters).\<close>

definition quadIO :: gostring where "quadIO = [quad, 0x49, 0x4F]"
definition quadPP :: gostring where "quadPP = [quad, 0x50, 0x50]"

section \<open>Values\<close>

text \<open>
  \<^verbatim>\<open>big.Float\<close> wraps \<^verbatim>\<open>*math/big.Float\<close>: a signed zero, a nonzero finite number or a
  signed infinity. The finite numbers are rationals; the precision and rounding
  mode only matter for the result of an arithmetic operation, which is rounded.
\<close>

datatype big_Float = Zero bool | Finite rat | Infinite bool

datatype float64 = Finite64 rat | PosInf64 | NegInf64 | NaN64

datatype number = Bool bool | apl_Int int | Float float64 | BigFloat big_Float

datatype fn = Primitive gostring | FnVar gostring | Lambda nat

datatype "value" =
    Number number
  | String gostring
  | Identifier gostring
  | IntArray "nat list" "int list"
  | GeneralArray "nat list" "value list"
  | EmptyArray
  | Function fn
  | Object nat

text \<open>The type test \<^verbatim>\<open>_, ok := v.(Function)\<close>.\<close>

fun is_Function :: "value \<Rightarrow> bool" where
  "is_Function (Function f) = True"
| "is_Function v = False"

section \<open>The runtime\<close>

text \<open>
  \<^verbatim>\<open>type env struct { parent *env; vars map[string]Value }\<close>, as \<^verbatim>\<open>var.go\<close> uses
  it: an environment and the chain of its parents, the last of which is the
  root. The runtime reaches an environment from the current one, \<^verbatim>\<open>a.env\<close>, so a
  pointer to an environment (the argument of \<^verbatim>\<open>AssignEnv\<close>, the second result of
  \<^verbatim>\<open>LookupEnv\<close>) is the number of \<^verbatim>\<open>parent\<close> links that lead to it from \<^verbatim>\<open>a.env\<close>,
  0 for \<^verbatim>\<open>a.env\<close> itself.
\<close>

datatype env = Env (vars: "gostring \<rightharpoonup> value") (parent: "env option")

type_synonym envptr = nat

record format =
  PP :: int

record apl =
  stdout :: gostring
  Format :: format
  Origin :: int
  env :: env
  pkg :: "gostring \<rightharpoonup> env"

datatype error =
    VarNameNotAllowed gostring
  | AssignPackageVar
  | CannotSetIndexOrigin
  | FunctionToUppercase
  | NonFunctionToLowercase
  | SelectionError
  | OtherError

text \<open>
  What \<^verbatim>\<open>var.go\<close> calls and the repository keeps elsewhere or takes from the Go
  library: the scanner's \<^verbatim>\<open>scan.AllowedInVarname\<close>, \<^verbatim>\<open>unicode.IsUpper\<close>, the
  rune map of \<^verbatim>\<open>strings.ToLower\<close>, the tower's \<^verbatim>\<open>ToBool\<close>, the \<^verbatim>\<open>String\<close>
  method of the values and \<^verbatim>\<open>SetPP\<close>. They are parameters of the model.
\<close>

record host =
  scan_AllowedInVarname :: "rune \<Rightarrow> bool \<Rightarrow> bool"
  unicode_IsUpper :: "rune \<Rightarrow> bool"
  unicode_ToLower :: "rune \<Rightarrow> rune"
  Tower_ToBool :: "number \<Rightarrow> (bool \<times> bool)"
  Value_String :: "value \<Rightarrow> format \<Rightarrow> gostring"
  Apl_SetPP :: "value \<Rightarrow> apl \<Rightarrow> error option \<times> apl"

section \<open>Variable names\<close>

text \<open>
  The loop of \<^verbatim>\<open>isVarname\<close>: \<open>first\<close> is \<^verbatim>\<open>i == 0\<close>, \<open>upper\<close> the flag the loop
  sets. In \<^verbatim>\<open>i == 0 && unicode.IsUpper(r) || strings.IndexRune(..., r) != -1\<close> the
  conjunction binds tighter, so one of the three glyphs at any position sets
  the flag.
\<close>

fun isVarname_loop :: "host \<Rightarrow> bool \<Rightarrow> bool \<Rightarrow> gostring \<Rightarrow> bool \<times> bool" where
  "isVarname_loop H first upper [] = (True, upper = False)"
| "isVarname_loop H first upper (r # rs) =
     (if scan_AllowedInVarname H r first = False then (False, False)
      else isVarname_loop H False
             (if (first \<and> unicode_IsUpper H r) \<or> r \<in> set [quad, alpha, omega] then True else upper)
             rs)"

text \<open>\<^verbatim>\<open>s[n+len("\<rightarrow>"):]\<close> for the first position \<open>n\<close> of the arrow.\<close>

definition after_arrow :: "gostring \<Rightarrow> gostring" where
  "after_arrow s = drop 1 (dropWhile (\<lambda>r. r \<noteq> arrow) s)"

definition before_arrow :: "gostring \<Rightarrow> gostring" where
  "before_arrow s = takeWhile (\<lambda>r. r \<noteq> arrow) s"

definition isVarname :: "host \<Rightarrow> gostring \<Rightarrow> bool \<times> bool" where
  "isVarname H s =
     (if s = [] then (False, False)
      else isVarname_loop H True False (if arrow \<in> set s then after_arrow s else s))"

section \<open>Assignment\<close>

text \<open>
  The environment \<open>k\<close> parent links up, and the store \<^verbatim>\<open>env.vars[name] = v\<close> into
  it. A pointer is never past the root; there \<open>env_at\<close> is \<open>None\<close> and \<open>env_store\<close>
  leaves the chain as it is.
\<close>

fun env_at :: "env \<Rightarrow> envptr \<Rightarrow> env option" where
  "env_at e 0 = Some e"
| "env_at e (Suc k) = (case parent e of None \<Rightarrow> None | Some p \<Rightarrow> env_at p k)"

fun env_store :: "env \<Rightarrow> envptr \<Rightarrow> gostring \<Rightarrow> value \<Rightarrow> env" where
  "env_store e 0 name v = Env ((vars e)(name \<mapsto> v)) (parent e)"
| "env_store e (Suc k) name v =
     (case parent e of None \<Rightarrow> e | Some p \<Rightarrow> Env (vars e) (Some (env_store p k name v)))"

text \<open>
  \<^verbatim>\<open>AssignEnv\<close> returns its error and leaves its effect in the runtime; the
  model returns both. The argument \<^verbatim>\<open>env\<close> is \<open>None\<close> for \<^verbatim>\<open>nil\<close>. A value is
  never the nil interface.
\<close>

definition AssignEnv :: "host \<Rightarrow> gostring \<Rightarrow> value \<Rightarrow> envptr option \<Rightarrow> apl \<Rightarrow> error option \<times> apl" where
  "AssignEnv H name v envp a =
     (let (ok, isfunc) = isVarname H name in
      if ok = False then (Some (VarNameNotAllowed name), a)
      else if arrow \<in> set name then (Some AssignPackageVar, a)
      else if name = [quad] then
        (None, a\<lparr>stdout := stdout a @ Value_String H v (Format a) @ [newline]\<rparr>)
      else if name = quadIO then
        (case v of
           Number n \<Rightarrow>
             (case Tower_ToBool H n of
                (b, True) \<Rightarrow> (None, a\<lparr>Origin := (if b then 1 else 0)\<rparr>)
              | (b, False) \<Rightarrow> (Some CannotSetIndexOrigin, a))
         | _ \<Rightarrow> (Some CannotSetIndexOrigin, a))
      else if name = quadPP then Apl_SetPP H v a
      else if is_Function v \<and> isfunc \<noteq> True then (Some FunctionToUppercase, a)
      else if is_Function v = False \<and> isfunc = True then (Some NonFunctionToLowercase, a)
      else
        (let k = (case envp of None \<Rightarrow> 0 | Some k \<Rightarrow> k) in
         if name = [alpha] \<and> (case env_at (env a) k of None \<Rightarrow> False | Some e \<Rightarrow> vars e [alpha] \<noteq> None)
         then (None, a)
         else (None, a\<lparr>env := env_store (env a) k name v\<rparr>)))"

definition Assign :: "host \<Rightarrow> gostring \<Rightarrow> value \<Rightarrow> apl \<Rightarrow> error option \<times> apl" where
  "Assign H name v a = AssignEnv H name v None a"

section \<open>Lookup\<close>

text \<open>The loop of \<^verbatim>\<open>LookupEnv\<close>, from the environment \<open>k\<close> links above the current one.\<close>

fun lookup_chain :: "env \<Rightarrow> gostring \<Rightarrow> envptr \<Rightarrow> (value \<times> envptr) option" where
  "lookup_chain (Env vs p) name k =
     (case vs name of
        Some v \<Rightarrow> Some (v, k)
      | None \<Rightarrow> (case p of None \<Rightarrow> None | Some e \<Rightarrow> lookup_chain e name (Suc k)))"

definition packageVar :: "apl \<Rightarrow> gostring \<Rightarrow> value option" where
  "packageVar a name =
     (if arrow \<notin> set name then None
      else (case pkg a (before_arrow name) of
              None \<Rightarrow> None
            | Some p \<Rightarrow> vars p (after_arrow name)))"

definition LookupEnv :: "host \<Rightarrow> apl \<Rightarrow> gostring \<Rightarrow> value option \<times> envptr option" where
  "LookupEnv H a name =
     (if name = quadIO then (Some (Number (apl_Int (Origin a))), None)
      else if name = quadPP then (Some (Number (apl_Int (PP (Format a)))), None)
      else if arrow \<in> set name then
        (if map (unicode_ToLower H) (before_arrow name) = before_arrow name
         then (packageVar a name, None)
         else (None, None))
      else
        (case lookup_chain (env a) name 0 of
           Some (v, k) \<Rightarrow> (Some v, Some k)
         | None \<Rightarrow> (None, None)))"

definition Lookup :: "host \<Rightarrow> apl \<Rightarrow> gostring \<Rightarrow> value option" where
  "Lookup H a name = fst (LookupEnv H a name)"

text \<open>\<^verbatim>\<open>numVar.Eval\<close>: the stored value, or the name as an \<^verbatim>\<open>Identifier\<close>; the error is always nil.\<close>

definition numVar_Eval :: "host \<Rightarrow> apl \<Rightarrow> gostring \<Rightarrow> value \<times> error option" where
  "numVar_Eval H a name =
     (case Lookup H a name of
        None \<Rightarrow> (Identifier name, None)
      | Some x \<Rightarrow> (x, None))"

section \<open>Division of big floats\<close>

text \<open>
  \<^verbatim>\<open>IsInf\<close>, \<^verbatim>\<open>Sign\<close>, \<^verbatim>\<open>Signbit\<close> and \<^verbatim>\<open>SetInt64\<close> of \<^verbatim>\<open>math/big\<close>. \<^verbatim>\<open>Sign\<close> is 0
  for both zeros.
\<close>

fun IsInf :: "big_Float \<Rightarrow> bool" where
  "IsInf (Infinite neg) = True"
| "IsInf x = False"

fun Sign :: "big_Float \<Rightarrow> int" where
  "Sign (Zero neg) = 0"
| "Sign (Finite q) = (if q < 0 then - 1 else if q = 0 then 0 else 1)"
| "Sign (Infinite neg) = (if neg then - 1 else 1)"

fun Signbit :: "big_Float \<Rightarrow> bool" where
  "Signbit (Zero neg) = neg"
| "Signbit (Finite q) = (q < 0)"
| "Signbit (Infinite neg) = neg"

fun rat_of :: "big_Float \<Rightarrow> rat" where
  "rat_of (Finite q) = q"
| "rat_of x = 0"

definition SetInt64 :: "int \<Rightarrow> big_Float" where
  "SetInt64 i = (if i = 0 then Zero False else Finite (of_int i))"

text \<open>
  \<^verbatim>\<open>z.Quo(x, y)\<close> of \<^verbatim>\<open>math/big\<close>: the quotient rounded to the precision of \<open>z\<close>
  (the rounding \<open>rnd\<close> is a parameter; it may underflow to a zero or overflow
  to an infinity). Quo panics with \<^verbatim>\<open>ErrNaN\<close> when both operands are zero or both
  are infinite: the result \<open>None\<close>.
\<close>

definition Quo :: "(rat \<Rightarrow> big_Float) \<Rightarrow> big_Float \<Rightarrow> big_Float \<Rightarrow> big_Float option" where
  "Quo rnd x y =
     (if (Sign x = 0 \<and> Sign y = 0) \<or> (IsInf x \<and> IsInf y) then None
      else if Sign x = 0 \<or> IsInf y then Some (Zero (Signbit x \<noteq> Signbit y))
      else if IsInf x \<or> Sign y = 0 then Some (Infinite (Signbit x \<noteq> Signbit y))
      else Some (rnd (rat_of x / rat_of y)))"

text \<open>
  Modelled from the spec: the sentinel \<^verbatim>\<open>numbers.Inf\<close> that \<^verbatim>\<open>Div2\<close> returns; the
  package \<^verbatim>\<open>numbers\<close> is not among the sources. Section 4.1: division by zero
  returns "a kind-specific sentinel (e.g. an infinity marker)".
\<close>

definition numbers_Inf :: "value" where
  "numbers_Inf = Number (Float PosInf64)"

text \<open>
  Modelled from the spec: the sentinel \<^verbatim>\<open>numbers.NaN\<close> that \<^verbatim>\<open>Div2\<close> returns; the
  package \<^verbatim>\<open>numbers\<close> is not among the sources. Section 4.1: "scalar 0\<div>0 yields
  not-a-number of the current float kind".
\<close>

definition numbers_NaN :: "value" where
  "numbers_NaN = Number (Float NaN64)"

text \<open>
  \<^verbatim>\<open>func (f Float) Div2(R apl.Value) (apl.Value, bool)\<close>. The result \<open>None\<close> is a
  panic: the type assertion \<^verbatim>\<open>R.(Float)\<close> on a value that is no big float, or
  the panic of \<^verbatim>\<open>Quo\<close>. The test of \<^verbatim>\<open>f.Float.IsInf()\<close> comes before the first
  type assertion. \<^verbatim>\<open>f.cpy()\<close> is \<^verbatim>\<open>f.Float.Copy(f.Float)\<close>, which returns the
  receiver's own pointer, so the result of the last two cases is also left in
  \<open>f\<close>; the model returns the result only.
\<close>

definition Div2 :: "(rat \<Rightarrow> big_Float) \<Rightarrow> big_Float \<Rightarrow> value \<Rightarrow> (value \<times> bool) option" where
  "Div2 rnd f R =
     (if IsInf f then Some (numbers_Inf, True)
      else
        (case R of
           Number (BigFloat r) \<Rightarrow>
             (if IsInf r then Some (numbers_NaN, True)
              else
                (let lz = (Sign f = 0); rz = (Sign r = 0) in
                 if lz \<and> rz then Some (numbers_NaN, True)
                 else if lz then Some (Number (BigFloat (SetInt64 0)), True)
                 else if rz then Some (numbers_Inf, True)
                 else map_option (\<lambda>z. (Number (BigFloat z), True)) (Quo rnd f r)))
         | _ \<Rightarrow> None))"

section \<open>Lambda calls with a default left argument\<close>

text \<open>
  Modelled from the spec: the frame of a lambda call; the \<^verbatim>\<open>Call\<close> method of a
  lambda expression is not among the sources. Section 4.5: "create a fresh
  environment whose parent is the lambda's captured environment; bind \<omega> to
  the right operand, \<alpha> to the left". The frame becomes the current
  environment; \<open>c\<close> is the captured environment and \<open>L\<close> is \<open>None\<close> in a monadic
  call.
\<close>

definition lambda_frame :: "apl \<Rightarrow> env \<Rightarrow> value option \<Rightarrow> value \<Rightarrow> apl" where
  "lambda_frame a c L R =
     a\<lparr>env := Env ((case L of None \<Rightarrow> Map.empty | Some l \<Rightarrow> [[alpha] \<mapsto> l])([omega] \<mapsto> R))
                   (Some c)\<rparr>"

text \<open>
  Modelled from the spec: the primitive \<^verbatim>\<open>+\<close> on two integers; the package
  \<^verbatim>\<open>primitives\<close> is not among the sources. Scenario 1 of section 8 adds
  element by element.
\<close>

fun plus_int :: "value \<Rightarrow> value \<Rightarrow> value option" where
  "plus_int (Number (apl_Int x)) (Number (apl_Int y)) = Some (Number (apl_Int (x + y)))"
| "plus_int l r = None"

text \<open>
  Modelled from the spec: the body \<^verbatim>\<open>{\<alpha>\<leftarrow>d \<diamondop> \<alpha>+\<omega>}\<close> evaluated statement by
  statement; the evaluator is not among the sources. Section 4.5: statements
  are evaluated in order and an error aborts the evaluation. The assignment is
  \<^verbatim>\<open>Assign\<close> and the two names are \<^verbatim>\<open>numVar.Eval\<close>, both of \<^verbatim>\<open>var.go\<close>.
\<close>

definition default_left_body :: "host \<Rightarrow> value \<Rightarrow> apl \<Rightarrow> value option" where
  "default_left_body H d a =
     (case Assign H [alpha] d a of
        (Some e, a') \<Rightarrow> None
      | (None, a') \<Rightarrow> plus_int (fst (numVar_Eval H a' [alpha])) (fst (numVar_Eval H a' [omega])))"

text \<open>
  Modelled from the spec: the call of that lambda, monadic (\<open>L = None\<close>) or
  dyadic: the body in the frame of the call.
\<close>

definition call_default_left ::
    "host \<Rightarrow> value \<Rightarrow> apl \<Rightarrow> env \<Rightarrow> value option \<Rightarrow> value \<Rightarrow> value option" where
  "call_default_left H d a c L R = default_left_body H d (lambda_frame a c L R)"

section \<open>Selective specification through take\<close>

text \<open>
  Modelled from the spec: the inverse index map of take on a vector; the
  package \<^verbatim>\<open>primitives\<close> is not among the sources. Section 4.2: "positive lengths
  take/drop from the front, negative from the back". The map lists, for each
  cell of \<^verbatim>\<open>n\<up>X\<close>, its position in \<open>X\<close>.
\<close>

definition take_selection :: "int \<Rightarrow> nat \<Rightarrow> nat list" where
  "take_selection n len = (if 0 \<le> n then [0..<nat n] else [len - nat (- n)..<len])"

text \<open>
  Modelled from the spec: the write of the right-hand side's cells through an
  index map; the evaluator of assignments is not among the sources. Section
  4.5: it "writes the RHS cells through that map into a clone of the bound
  array".
\<close>

fun write_through :: "nat list \<Rightarrow> int list \<Rightarrow> int list \<Rightarrow> int list" where
  "write_through (i # is) (r # rs) xs = write_through is rs (xs[i := r])"
| "write_through is rs xs = xs"

text \<open>
  Modelled from the spec: selective specification of an integer vector; the
  evaluator of assignments is not among the sources. Section 4.5: the evaluator
  "asks the function for an inverse index map from LHS cell positions to
  underlying-variable cell positions, then writes the RHS cells through that
  map into a clone of the bound array and reassigns"; section 7: it "validates
  lengths before mutating". The look-up and the reassignment are \<^verbatim>\<open>LookupEnv\<close>
  and \<^verbatim>\<open>AssignEnv\<close> of \<^verbatim>\<open>var.go\<close>.
\<close>

definition selective_specification ::
    "host \<Rightarrow> gostring \<Rightarrow> (nat \<Rightarrow> nat list) \<Rightarrow> int list \<Rightarrow> apl \<Rightarrow> error option \<times> apl" where
  "selective_specification H name sel rhs a =
     (case LookupEnv H a name of
        (Some (IntArray shape xs), envp) \<Rightarrow>
          (let idx = sel (length xs) in
           if length idx \<noteq> length rhs \<or> list_ex (\<lambda>i. length xs \<le> i) idx
           then (Some SelectionError, a)
           else AssignEnv H name (IntArray shape (write_through idx rhs xs)) envp a)
      | _ \<Rightarrow> (Some SelectionError, a))"

definition name_X :: gostring where "name_X = [0x58]"

text \<open>
  Modelled from the spec: the statements \<^verbatim>\<open>X \<leftarrow> 10 20 30 40\<close> and
  \<^verbatim>\<open>(2\<up>X) \<leftarrow> 100 200\<close> of scenario 5 of section 8, one after the other, the
  second only when the first gave no error; the evaluator is not among the
  sources. The first statement is \<^verbatim>\<open>Assign\<close>.
\<close>

definition take_scenario :: "host \<Rightarrow> apl \<Rightarrow> error option \<times> apl" where
  "take_scenario H a =
     (case Assign H name_X (IntArray [4] [10, 20, 30, 40]) a of
        (Some e, a') \<Rightarrow> (Some e, a')
      | (None, a') \<Rightarrow> selective_specification H name_X (take_selection 2) [100, 200] a')"

section \<open>A host for concrete evaluations\<close>

text \<open>
  An instance of the parameters on the ASCII letters and digits and the three
  glyphs, with a tower that takes the booleans and the integers 0 and 1 as
  booleans, and a runtime with an empty root environment.
\<close>

definition sample_AllowedInVarname :: "rune \<Rightarrow> bool \<Rightarrow> bool" where
  "sample_AllowedInVarname r first =
     ((0x41 \<le> r \<and> r \<le> 0x5A) \<or> (0x61 \<le> r \<and> r \<le> 0x7A) \<or> r = quad \<or> r = alpha \<or> r = omega
      \<or> (\<not> first \<and> 0x30 \<le> r \<and> r \<le> 0x39))"

definition sample_ToBool :: "number \<Rightarrow> bool \<times> bool" where
  "sample_ToBool n =
     (case n of
        Bool b \<Rightarrow> (b, True)
      | apl_Int i \<Rightarrow> (if i = 0 then (False, True) else if i = 1 then (True, True) else (False, False))
      | _ \<Rightarrow> (False, False))"

definition sample_String :: "value \<Rightarrow> format \<Rightarrow> gostring" where
  "sample_String v f = (case v of Identifier s \<Rightarrow> s | String s \<Rightarrow> s | _ \<Rightarrow> [0x3F])"

definition sample_host :: host where
  "sample_host =
     \<lparr> scan_AllowedInVarname = sample_AllowedInVarname,
       unicode_IsUpper = (\<lambda>r. 0x41 \<le> r \<and> r \<le> 0x5A),
       unicode_ToLower = (\<lambda>r. if 0x41 \<le> r \<and> r \<le> 0x5A then r + 0x20 else r),
       Tower_ToBool = sample_ToBool,
       Value_String = sample_String,
       Apl_SetPP = (\<lambda>v a. (Some OtherError, a)) \<rparr>"

definition root_env :: env where
  "root_env = Env Map.empty None"

definition new_apl :: apl where
  "new_apl = \<lparr> stdout = [], Format = \<lparr> PP = 0 \<rparr>, Origin = 1, env = root_env, pkg = Map.empty \<rparr>"

definition name_f :: gostring where "name_f = [0x66]"

definition outer_env :: env where
  "outer_env = Env [name_X \<mapsto> Number (apl_Int 1)] None"

definition scoped_apl :: apl where
  "scoped_apl = new_apl\<lparr>env := Env Map.empty (Some outer_env)\<rparr>"

definition pkg_p :: gostring where "pkg_p = [0x70]"

definition pkg_apl :: apl where
  "pkg_apl = new_apl\<lparr>pkg := [pkg_p \<mapsto> outer_env]\<rparr>"

section \<open>Names and the branches of assignment\<close>

lemma reserved_names:
  "arrow \<notin> set quadIO" "quadIO \<noteq> [quad]" "quadPP \<noteq> [quad]" "arrow \<notin> set quadPP"
  "quadIO \<noteq> quadPP" "quadIO \<noteq> [alpha]" "quadPP \<noteq> [alpha]" "[quad] \<noteq> [alpha]"
  "arrow \<notin> set [alpha]" "arrow \<notin> set [quad]"
  by (simp_all add: quadIO_def quadPP_def arrow_def quad_def alpha_def)

lemma AssignEnv_invalid:
  "fst (isVarname H name) = False \<Longrightarrow>
   AssignEnv H name v envp a = (Some (VarNameNotAllowed name), a)"
  by (cases "isVarname H name") (simp add: AssignEnv_def)

lemma AssignEnv_arrow:
  "fst (isVarname H name) \<Longrightarrow> arrow \<in> set name \<Longrightarrow>
   AssignEnv H name v envp a = (Some AssignPackageVar, a)"
  by (cases "isVarname H name") (simp add: AssignEnv_def)

lemma AssignEnv_quadIO:
  "fst (isVarname H quadIO) \<Longrightarrow>
   AssignEnv H quadIO v envp a =
     (case v of
        Number n \<Rightarrow>
          (case Tower_ToBool H n of
             (b, True) \<Rightarrow> (None, a\<lparr>Origin := (if b then 1 else 0)\<rparr>)
           | (b, False) \<Rightarrow> (Some CannotSetIndexOrigin, a))
      | _ \<Rightarrow> (Some CannotSetIndexOrigin, a))"
  by (cases "isVarname H quadIO") (simp add: AssignEnv_def reserved_names)

lemma AssignEnv_ordinary:
  assumes "isVarname H name = (True, isfunc)"
    and "arrow \<notin> set name" and "name \<noteq> [quad]" and "name \<noteq> quadIO" and "name \<noteq> quadPP"
  shows "AssignEnv H name v envp a =
     (if is_Function v \<and> \<not> isfunc then (Some FunctionToUppercase, a)
      else if \<not> is_Function v \<and> isfunc then (Some NonFunctionToLowercase, a)
      else if name = [alpha] \<and>
              (case env_at (env a) (case envp of None \<Rightarrow> 0 | Some k \<Rightarrow> k) of
                 None \<Rightarrow> False | Some e \<Rightarrow> vars e [alpha] \<noteq> None)
      then (None, a)
      else (None, a\<lparr>env := env_store (env a) (case envp of None \<Rightarrow> 0 | Some k \<Rightarrow> k) name v\<rparr>))"
  using assms by (simp add: AssignEnv_def Let_def)

lemma isVarname_loop_upper:
  "set rs \<inter> {quad, alpha, omega} = {} \<Longrightarrow> fst (isVarname_loop H False upper rs) \<Longrightarrow>
   snd (isVarname_loop H False upper rs) = (\<not> upper)"
  by (induction rs arbitrary: upper) (auto split: if_splits)

lemma isVarname_first_rune:
  assumes "set name \<inter> {quad, alpha, omega} = {}" and "arrow \<notin> set name" and "fst (isVarname H name)"
  shows "snd (isVarname H name) = (\<not> unicode_IsUpper H (hd name))"
proof (cases name)
  case Nil
  with assms show ?thesis by (simp add: isVarname_def)
next
  case (Cons r rs)
  with assms show ?thesis
    using isVarname_loop_upper [of rs H "unicode_IsUpper H r"]
    by (auto simp add: isVarname_def split: if_splits)
qed

lemma sample_isVarname_X: "isVarname sample_host name_X = (True, False)"
  by (simp add: isVarname_def name_X_def arrow_def sample_host_def sample_AllowedInVarname_def)

lemma sample_isVarname_f: "isVarname sample_host name_f = (True, True)"
  by (simp add: isVarname_def name_f_def arrow_def sample_host_def sample_AllowedInVarname_def
      quad_def alpha_def omega_def)

lemma sample_isVarname_quadIO: "fst (isVarname sample_host quadIO)"
  by (simp add: isVarname_def quadIO_def arrow_def quad_def sample_host_def
      sample_AllowedInVarname_def)

lemma name_X_facts:
  "arrow \<notin> set name_X" "name_X \<notin> {[quad], quadIO, quadPP}" "name_X \<noteq> [alpha]"
  by (simp_all add: name_X_def arrow_def quad_def quadIO_def quadPP_def alpha_def)

lemma name_f_facts:
  "arrow \<notin> set name_f" "name_f \<notin> {[quad], quadIO, quadPP}" "name_f \<noteq> [alpha]"
  by (simp_all add: name_f_def arrow_def quad_def quadIO_def quadPP_def alpha_def)

lemma arrow_split:
  "arrow \<notin> set p \<Longrightarrow> before_arrow (p @ arrow # x) = p \<and> after_arrow (p @ arrow # x) = x"
  by (induction p) (simp_all add: before_arrow_def after_arrow_def)

lemma isVarname_quad:
  "scan_AllowedInVarname H quad True \<Longrightarrow> isVarname H [quad] = (True, False)"
  by (simp add: isVarname_def arrow_def quad_def)

text \<open>
  C9. Assigning any value to the name quad appends the value's formatted
  representation and a newline to the output, returns no error and leaves the
  environments, the packages, the origin and the format as they were; no
  variable named quad is created. The scanner has to admit the glyph as the
  first rune of a name.
\<close>

theorem assign_quad_prints:
  assumes "scan_AllowedInVarname H quad True"
  shows "Assign H [quad] v a =
           (None, a\<lparr>stdout := stdout a @ Value_String H v (Format a) @ [newline]\<rparr>)
         \<and> env (snd (Assign H [quad] v a)) = env a
         \<and> pkg (snd (Assign H [quad] v a)) = pkg a
         \<and> Lookup H (snd (Assign H [quad] v a)) [quad] = Lookup H a [quad]"
proof -
  have v: "isVarname H [quad] = (True, False)"
    using assms by (rule isVarname_quad)
  have q: "arrow \<notin> set [quad]"
    by (simp add: arrow_def quad_def)
  have r: "Assign H [quad] v a =
             (None, a\<lparr>stdout := stdout a @ Value_String H v (Format a) @ [newline]\<rparr>)"
    using q by (simp add: Assign_def AssignEnv_def v)
  have l: "Lookup H (a\<lparr>stdout := s\<rparr>) [quad] = Lookup H a [quad]" for s
    by (simp add: Lookup_def LookupEnv_def packageVar_def)
  show ?thesis
    unfolding r by (simp add: l)
qed

theorem assign_quad_prints_witness:
  "scan_AllowedInVarname sample_host quad True
   \<and> Assign sample_host [quad] (Identifier [0x41]) new_apl =
       (None, new_apl\<lparr>stdout := [0x41, newline]\<rparr>)
   \<and> Lookup sample_host (snd (Assign sample_host [quad] (Identifier [0x41]) new_apl)) [quad] = None"
proof -
  have h: "scan_AllowedInVarname sample_host quad True"
    by (simp add: sample_host_def sample_AllowedInVarname_def)
  have s: "Value_String sample_host (Identifier [0x41]) (Format new_apl) = [0x41]"
    by (simp add: sample_host_def sample_String_def)
  have st: "stdout new_apl = []"
    by (simp add: new_apl_def)
  have l: "Lookup sample_host (new_apl\<lparr>stdout := t\<rparr>) [quad] = None" for t
    by (simp add: Lookup_def LookupEnv_def new_apl_def root_env_def quadIO_def quadPP_def
        arrow_def quad_def)
  have r: "Assign sample_host [quad] (Identifier [0x41]) new_apl =
             (None, new_apl\<lparr>stdout := [0x41, newline]\<rparr>)"
    using assign_quad_prints [OF h, of "Identifier [0x41]" new_apl] by (simp add: s st)
  show ?thesis
    using h r l by simp
qed

section \<open>The naming law\<close>

text \<open>
  C5. For a valid name that is not package-qualified and is none of the reserved
  names quad, quad-IO and quad-PP, Assign returns an error exactly when the
  kinds of name and value disagree: a Function for a value variable, or a value
  that is no Function for a function variable; in both cases the runtime is
  left as it was, so no binding is created. With agreeing kinds there is no
  error. The kind is the second result of isVarname; for a name without the
  glyphs quad, alpha and omega it is a value variable exactly when its first
  rune is upper case.
\<close>

theorem assign_kind_error:
  assumes "isVarname H name = (True, isfunc)"
    and "arrow \<notin> set name" and "name \<notin> {[quad], quadIO, quadPP}"
  shows "(fst (Assign H name v a) \<noteq> None) = (is_Function v \<noteq> isfunc)
       \<and> (is_Function v \<and> \<not> isfunc \<longrightarrow> Assign H name v a = (Some FunctionToUppercase, a))
       \<and> (\<not> is_Function v \<and> isfunc \<longrightarrow> Assign H name v a = (Some NonFunctionToLowercase, a))
       \<and> (set name \<inter> {quad, alpha, omega} = {} \<longrightarrow> isfunc = (\<not> unicode_IsUpper H (hd name)))"
proof -
  have o: "name \<noteq> [quad]" "name \<noteq> quadIO" "name \<noteq> quadPP"
    using assms(3) by simp_all
  note r = AssignEnv_ordinary [OF assms(1) assms(2) o, of v None a]
  have k: "set name \<inter> {quad, alpha, omega} = {} \<longrightarrow> isfunc = (\<not> unicode_IsUpper H (hd name))"
    using isVarname_first_rune [of name H] assms(1) assms(2) by simp
  show ?thesis
    using k by (auto simp add: Assign_def r)
qed

theorem assign_kind_error_witness:
  "isVarname sample_host name_X = (True, False) \<and> arrow \<notin> set name_X
   \<and> name_X \<notin> {[quad], quadIO, quadPP}
   \<and> Assign sample_host name_X (Function (Primitive [0x2B])) new_apl = (Some FunctionToUppercase, new_apl)
   \<and> fst (Assign sample_host name_X (Number (apl_Int 1)) new_apl) = None
   \<and> Assign sample_host name_f (Number (apl_Int 1)) new_apl = (Some NonFunctionToLowercase, new_apl)
   \<and> fst (Assign sample_host name_f (Function (Primitive [0x2B])) new_apl) = None"
  using assign_kind_error [OF sample_isVarname_X name_X_facts(1) name_X_facts(2),
      of "Function (Primitive [0x2B])" new_apl]
    assign_kind_error [OF sample_isVarname_X name_X_facts(1) name_X_facts(2),
      of "Number (apl_Int 1)" new_apl]
    assign_kind_error [OF sample_isVarname_f name_f_facts(1) name_f_facts(2),
      of "Number (apl_Int 1)" new_apl]
    assign_kind_error [OF sample_isVarname_f name_f_facts(1) name_f_facts(2),
      of "Function (Primitive [0x2B])" new_apl]
    sample_isVarname_X name_X_facts
  by simp

section \<open>The index origin\<close>

text \<open>
  C8. When the tower coerces a Number to the boolean b, assigning it to quad-IO
  returns no error and sets the origin to 1 for true and to 0 for false, and
  the lookup of quad-IO that follows returns that origin as an integer. A
  value that is no Number, and a Number the tower does not coerce, give an
  error and leave the runtime, the origin with it, as it was. The scanner has
  to admit the name quad-IO.
\<close>

theorem quadIO_roundtrip:
  assumes "fst (isVarname H quadIO)"
  shows "(Tower_ToBool H n = (b, True) \<longrightarrow>
            Assign H quadIO (Number n) a = (None, a\<lparr>Origin := (if b then 1 else 0)\<rparr>)
            \<and> LookupEnv H (snd (Assign H quadIO (Number n) a)) quadIO =
                (Some (Number (apl_Int (if b then 1 else 0))), None))
       \<and> ((\<forall>m. v \<noteq> Number m) \<longrightarrow> Assign H quadIO v a = (Some CannotSetIndexOrigin, a))
       \<and> (snd (Tower_ToBool H n) = False \<longrightarrow>
            Assign H quadIO (Number n) a = (Some CannotSetIndexOrigin, a))"
proof -
  note r = AssignEnv_quadIO [OF assms]
  have 1: "Tower_ToBool H n = (b, True) \<longrightarrow>
            Assign H quadIO (Number n) a = (None, a\<lparr>Origin := (if b then 1 else 0)\<rparr>)"
    by (simp add: Assign_def r)
  have 2: "LookupEnv H (a\<lparr>Origin := x\<rparr>) quadIO = (Some (Number (apl_Int x)), None)" for x
    by (simp add: LookupEnv_def)
  have 3: "(\<forall>m. v \<noteq> Number m) \<longrightarrow> Assign H quadIO v a = (Some CannotSetIndexOrigin, a)"
    by (cases v) (simp_all add: Assign_def r)
  have 4: "snd (Tower_ToBool H n) = False \<longrightarrow>
            Assign H quadIO (Number n) a = (Some CannotSetIndexOrigin, a)"
    by (cases "Tower_ToBool H n") (simp add: Assign_def r)
  show ?thesis
    using 1 2 3 4 by simp
qed

theorem quadIO_roundtrip_witness:
  "fst (isVarname sample_host quadIO)
   \<and> Tower_ToBool sample_host (apl_Int 0) = (False, True)
   \<and> Assign sample_host quadIO (Number (apl_Int 0)) new_apl = (None, new_apl\<lparr>Origin := 0\<rparr>)
   \<and> LookupEnv sample_host (snd (Assign sample_host quadIO (Number (apl_Int 0)) new_apl)) quadIO =
       (Some (Number (apl_Int 0)), None)
   \<and> (\<forall>m. String [] \<noteq> Number m)
   \<and> Assign sample_host quadIO (String []) new_apl = (Some CannotSetIndexOrigin, new_apl)"
proof -
  have t: "Tower_ToBool sample_host (apl_Int 0) = (False, True)"
    by (simp add: sample_host_def sample_ToBool_def)
  show ?thesis
    using quadIO_roundtrip [OF sample_isVarname_quadIO, of "apl_Int 0" False new_apl "String []"]
      sample_isVarname_quadIO t
    by (simp add: LookupEnv_def)
qed

section \<open>Package variables\<close>

text \<open>
  C10. For every name that contains the arrow of package qualification, Assign
  returns an error and leaves the runtime (the environment chain and the
  packages) as it was. Lookup reads the variable: for a name made of a
  lower-case package name, the arrow and a variable name, it returns the
  binding of the variable in the registered package, before and after the
  failed assignment.
\<close>

theorem assign_package_variable_fails:
  assumes "arrow \<in> set name"
  shows "fst (Assign H name v a) \<noteq> None \<and> snd (Assign H name v a) = a
       \<and> (\<forall>p x e. name = p @ arrow # x \<and> arrow \<notin> set p \<and> map (unicode_ToLower H) p = p
             \<and> pkg a p = Some e \<longrightarrow>
             Lookup H a name = vars e x \<and> Lookup H (snd (Assign H name v a)) name = vars e x)"
proof -
  have f: "fst (Assign H name v a) \<noteq> None \<and> snd (Assign H name v a) = a"
    using assms AssignEnv_invalid [of H name v None a] AssignEnv_arrow [of H name v None a]
    by (cases "fst (isVarname H name)") (simp_all add: Assign_def)
  have n: "name \<noteq> quadIO" "name \<noteq> quadPP"
    using assms reserved_names by auto
  have l: "Lookup H a name = vars e x"
    if "name = p @ arrow # x" "arrow \<notin> set p" "map (unicode_ToLower H) p = p" "pkg a p = Some e"
    for p x e
    using that n arrow_split [of p x]
    by (simp add: Lookup_def LookupEnv_def packageVar_def)
  from f have s: "snd (Assign H name v a) = a"
    by simp
  show ?thesis
    unfolding s using f l by blast
qed

theorem assign_package_variable_fails_witness:
  "arrow \<in> set (pkg_p @ arrow # name_X)
   \<and> fst (Assign sample_host (pkg_p @ arrow # name_X) (Number (apl_Int 2)) pkg_apl) \<noteq> None
   \<and> snd (Assign sample_host (pkg_p @ arrow # name_X) (Number (apl_Int 2)) pkg_apl) = pkg_apl
   \<and> arrow \<notin> set pkg_p \<and> map (unicode_ToLower sample_host) pkg_p = pkg_p
   \<and> pkg pkg_apl pkg_p = Some outer_env
   \<and> Lookup sample_host pkg_apl (pkg_p @ arrow # name_X) = Some (Number (apl_Int 1))"
proof -
  have m: "arrow \<in> set (pkg_p @ arrow # name_X)"
    by simp
  have h: "arrow \<notin> set pkg_p" "map (unicode_ToLower sample_host) pkg_p = pkg_p"
    "pkg pkg_apl pkg_p = Some outer_env" "vars outer_env name_X = Some (Number (apl_Int 1))"
    by (simp_all add: pkg_p_def arrow_def sample_host_def pkg_apl_def outer_env_def)
  show ?thesis
    using assign_package_variable_fails [OF m, of sample_host "Number (apl_Int 2)" pkg_apl] m h
    by auto
qed

section \<open>The parent chain\<close>

lemma lookup_chain_shift:
  "lookup_chain e name (Suc k) = map_option (\<lambda>(v, j). (v, Suc j)) (lookup_chain e name k)"
proof (induction e name k rule: lookup_chain.induct)
  case (1 vs p name k)
  show ?case
  proof (cases "vs name")
    case (Some v)
    then show ?thesis by simp
  next
    case None
    note n = this
    show ?thesis
    proof (cases p)
      case None
      with n show ?thesis by simp
    next
      case (Some e)
      with n "1.IH" [of e] show ?thesis by simp
    qed
  qed
qed

lemma lookup_chain_found:
  "lookup_chain e name 0 = Some (v, i) \<Longrightarrow>
   (\<exists>e'. env_at e i = Some e' \<and> vars e' name = Some v)
   \<and> (\<forall>j<i. \<forall>e'. env_at e j = Some e' \<longrightarrow> vars e' name = None)"
proof (induction e arbitrary: i)
  case (Env vs p)
  show ?case
  proof (cases "vs name")
    case (Some w)
    with Env.prems show ?thesis by simp
  next
    case None
    note n = this
    show ?thesis
    proof (cases p)
      case None
      with n Env.prems show ?thesis by simp
    next
      case (Some q)
      with n Env.prems obtain i' where i': "lookup_chain q name 0 = Some (v, i')" "i = Suc i'"
        by (auto simp add: lookup_chain_shift [of q name 0])
      have ih: "(\<exists>e'. env_at q i' = Some e' \<and> vars e' name = Some v)
          \<and> (\<forall>j<i'. \<forall>e'. env_at q j = Some e' \<longrightarrow> vars e' name = None)"
        using Env.IH [of q i'] Some i'(1) by simp
      have b: "\<forall>j<Suc i'. \<forall>e'. env_at (Env vs (Some q)) j = Some e' \<longrightarrow> vars e' name = None"
      proof (intro allI impI)
        fix j e'
        assume j: "j < Suc i'" and e': "env_at (Env vs (Some q)) j = Some e'"
        show "vars e' name = None"
        proof (cases j)
          case 0
          with e' n show ?thesis by auto
        next
          case (Suc j')
          with j e' ih show ?thesis by simp
        qed
      qed
      show ?thesis
        using ih b Some i'(2) by simp
    qed
  qed
qed

lemma lookup_chain_unbound:
  "(lookup_chain e name k = None) = (\<forall>i e'. env_at e i = Some e' \<longrightarrow> vars e' name = None)"
proof (induction e arbitrary: k)
  case (Env vs p)
  show ?case
  proof (cases "vs name")
    case (Some w)
    have "env_at (Env vs p) 0 = Some (Env vs p)" by simp
    with Some show ?thesis
      by (metis env.sel(1) lookup_chain.simps option.distinct(1) option.simps(5))
  next
    case None
    note n = this
    show ?thesis
    proof (cases p)
      case None
      have "vars e' name = None" if "env_at (Env vs None) i = Some e'" for i e'
        using that n by (cases i) auto
      with n None show ?thesis by simp
    next
      case (Some q)
      have "(\<forall>i e'. env_at (Env vs (Some q)) i = Some e' \<longrightarrow> vars e' name = None)
            = (\<forall>i e'. env_at q i = Some e' \<longrightarrow> vars e' name = None)"
      proof
        assume l: "\<forall>i e'. env_at (Env vs (Some q)) i = Some e' \<longrightarrow> vars e' name = None"
        show "\<forall>i e'. env_at q i = Some e' \<longrightarrow> vars e' name = None"
        proof (intro allI impI)
          fix i e'
          assume "env_at q i = Some e'"
          then have "env_at (Env vs (Some q)) (Suc i) = Some e'" by simp
          with l show "vars e' name = None" by blast
        qed
      next
        assume r: "\<forall>i e'. env_at q i = Some e' \<longrightarrow> vars e' name = None"
        show "\<forall>i e'. env_at (Env vs (Some q)) i = Some e' \<longrightarrow> vars e' name = None"
        proof (intro allI impI)
          fix i e'
          assume a: "env_at (Env vs (Some q)) i = Some e'"
          show "vars e' name = None"
            using a n r by (cases i) auto
        qed
      qed
      with n Some Env.IH [of q "Suc k"] show ?thesis by simp
    qed
  qed
qed

lemma env_at_env_store_same:
  "env_at e k = Some ek \<Longrightarrow>
   env_at (env_store e k n v) k = Some (Env ((vars ek)(n \<mapsto> v)) (parent ek))"
  by (induction e k arbitrary: ek rule: env_at.induct) (auto split: option.splits)

lemma env_at_env_store_other:
  "j \<noteq> k \<Longrightarrow> env_at e k = Some ek \<Longrightarrow>
   map_option vars (env_at (env_store e k n v) j) = map_option vars (env_at e j)"
proof (induction e k arbitrary: ek j rule: env_at.induct)
  case (1 e)
  then show ?case by (cases j) simp_all
next
  case (2 e k)
  then show ?case by (cases j) (auto split: option.splits)
qed

lemma lookup_chain_after_store:
  "lookup_chain e name 0 = Some (x, k) \<Longrightarrow>
   lookup_chain (env_store e k name v) name 0 = Some (v, k)"
proof (induction e arbitrary: k)
  case (Env vs p)
  show ?case
  proof (cases "vs name")
    case (Some w)
    with Env.prems show ?thesis by simp
  next
    case None
    note n = this
    show ?thesis
    proof (cases p)
      case None
      with n Env.prems show ?thesis by simp
    next
      case (Some q)
      with n Env.prems obtain k' where k': "lookup_chain q name 0 = Some (x, k')" "k = Suc k'"
        by (auto simp add: lookup_chain_shift [of q name 0])
      have "lookup_chain (env_store q k' name v) name 0 = Some (v, k')"
        using Env.IH [of q k'] Some k'(1) by simp
      then show ?thesis
        using n Some k'(2)
        by (cases "env_store q k' name v")
           (simp add: lookup_chain_shift [of _ name 0])
    qed
  qed
qed

lemma sample_lookup_scoped:
  "LookupEnv sample_host scoped_apl name_X = (Some (Number (apl_Int 1)), Some 1)"
  using name_X_facts by (simp add: LookupEnv_def scoped_apl_def outer_env_def)

text \<open>
  C7. For a name other than quad-IO and quad-PP and without the arrow of package
  qualification, lookup walks the parent chain from the current environment:
  a value it returns is the binding of the name in the environment it points
  to, no environment nearer to the current one binds the name, and evaluating
  the name gives that value; when some environment of the chain binds the name,
  lookup finds a binding; when none does, lookup returns nothing and evaluating
  the name returns the name itself as an Identifier, with no error.
\<close>

theorem lookup_walks_parent_chain:
  assumes "name \<noteq> quadIO" and "name \<noteq> quadPP" and "arrow \<notin> set name"
  shows "(\<forall>v p. LookupEnv H a name = (Some v, p) \<longrightarrow>
            (\<exists>i e. p = Some i \<and> env_at (env a) i = Some e \<and> vars e name = Some v
               \<and> (\<forall>j<i. \<forall>e'. env_at (env a) j = Some e' \<longrightarrow> vars e' name = None)
               \<and> numVar_Eval H a name = (v, None)))
       \<and> ((\<exists>i e v. env_at (env a) i = Some e \<and> vars e name = Some v) \<longrightarrow>
            (\<exists>v i. LookupEnv H a name = (Some v, Some i)))
       \<and> ((\<forall>i e. env_at (env a) i = Some e \<longrightarrow> vars e name = None) \<longrightarrow>
            LookupEnv H a name = (None, None) \<and> numVar_Eval H a name = (Identifier name, None))"
proof -
  have d: "LookupEnv H a name =
      (case lookup_chain (env a) name 0 of Some (v, k) \<Rightarrow> (Some v, Some k) | None \<Rightarrow> (None, None))"
    using assms by (simp add: LookupEnv_def)
  have 1: "\<exists>i e. p = Some i \<and> env_at (env a) i = Some e \<and> vars e name = Some v
             \<and> (\<forall>j<i. \<forall>e'. env_at (env a) j = Some e' \<longrightarrow> vars e' name = None)
             \<and> numVar_Eval H a name = (v, None)"
    if l: "LookupEnv H a name = (Some v, p)" for v p
  proof -
    from l d obtain i where i: "lookup_chain (env a) name 0 = Some (v, i)" "p = Some i"
      by (auto split: option.splits)
    have "numVar_Eval H a name = (v, None)"
      using l by (simp add: numVar_Eval_def Lookup_def)
    with lookup_chain_found [OF i(1)] i(2) show ?thesis by blast
  qed
  have 2: "\<exists>v i. LookupEnv H a name = (Some v, Some i)"
    if "\<exists>i e v. env_at (env a) i = Some e \<and> vars e name = Some v"
  proof -
    from that have "lookup_chain (env a) name 0 \<noteq> None"
      using lookup_chain_unbound [of "env a" name 0] by auto
    then show ?thesis
      using d by (auto split: option.splits)
  qed
  have 3: "LookupEnv H a name = (None, None) \<and> numVar_Eval H a name = (Identifier name, None)"
    if "\<forall>i e. env_at (env a) i = Some e \<longrightarrow> vars e name = None"
  proof -
    from that have "lookup_chain (env a) name 0 = None"
      using lookup_chain_unbound [of "env a" name 0] by simp
    then show ?thesis
      using d by (simp add: numVar_Eval_def Lookup_def)
  qed
  show ?thesis
    using 1 2 3 by blast
qed

theorem lookup_walks_parent_chain_witness:
  "name_X \<noteq> quadIO \<and> name_X \<noteq> quadPP \<and> arrow \<notin> set name_X
   \<and> LookupEnv sample_host scoped_apl name_X = (Some (Number (apl_Int 1)), Some 1)
   \<and> env_at (env scoped_apl) 1 = Some outer_env
   \<and> numVar_Eval sample_host scoped_apl name_X = (Number (apl_Int 1), None)
   \<and> LookupEnv sample_host new_apl name_X = (None, None)
   \<and> numVar_Eval sample_host new_apl name_X = (Identifier name_X, None)"
proof -
  have n: "name_X \<noteq> quadIO" "name_X \<noteq> quadPP" "arrow \<notin> set name_X"
    using name_X_facts by simp_all
  have u: "\<forall>i e. env_at (env new_apl) i = Some e \<longrightarrow> vars e name_X = None"
  proof (intro allI impI)
    fix i e
    assume "env_at (env new_apl) i = Some e"
    then show "vars e name_X = None"
      by (cases i) (auto simp add: new_apl_def root_env_def)
  qed
  have p: "env_at (env scoped_apl) 1 = Some outer_env"
    by (simp add: scoped_apl_def)
  show ?thesis
    using lookup_walks_parent_chain [OF n, of sample_host scoped_apl]
      lookup_walks_parent_chain [OF n, of sample_host new_apl] n sample_lookup_scoped u p
    by auto
qed

text \<open>
  C2, as stated, fails: with the name X bound to 1 in the parent of an empty
  current environment, lookup finds X in the parent, and Assign of 2 to X
  returns no error, binds X in the current environment and leaves the parent,
  where X is still 1, as it was.
\<close>

theorem assign_innermost_containing_counterexample:
  "LookupEnv sample_host scoped_apl name_X = (Some (Number (apl_Int 1)), Some 1)
   \<and> fst (Assign sample_host name_X (Number (apl_Int 2)) scoped_apl) = None
   \<and> vars (env (snd (Assign sample_host name_X (Number (apl_Int 2)) scoped_apl))) name_X
       = Some (Number (apl_Int 2))
   \<and> parent (env (snd (Assign sample_host name_X (Number (apl_Int 2)) scoped_apl)))
       = Some outer_env
   \<and> vars outer_env name_X = Some (Number (apl_Int 1))"
proof -
  have a: "Assign sample_host name_X (Number (apl_Int 2)) scoped_apl =
      (None, scoped_apl\<lparr>env := env_store (env scoped_apl) 0 name_X (Number (apl_Int 2))\<rparr>)"
    using name_X_facts AssignEnv_ordinary [OF sample_isVarname_X, of "Number (apl_Int 2)" None scoped_apl]
    by (simp add: Assign_def)
  show ?thesis
    unfolding a using sample_lookup_scoped by (simp add: scoped_apl_def outer_env_def)
qed

text \<open>
  C2, amended. For a valid name of the kind of the value, not package-qualified
  and none of quad, quad-IO, quad-PP and alpha, Assign binds the name in the
  current environment and leaves the parent chain as it was, whether or not an
  outer environment binds the name. The write reaches the innermost environment
  that binds the name when AssignEnv is given the environment that LookupEnv
  returned: the lookup that follows finds the new value there, and the
  variables of every other environment of the chain are unchanged.
\<close>

theorem assign_writes_current_env:
  assumes "isVarname H name = (True, is_Function v)"
    and "arrow \<notin> set name" and "name \<notin> {[quad], quadIO, quadPP}" and "name \<noteq> [alpha]"
  shows "Assign H name v a = (None, a\<lparr>env := Env ((vars (env a))(name \<mapsto> v)) (parent (env a))\<rparr>)
       \<and> (\<forall>x k. LookupEnv H a name = (Some x, Some k) \<longrightarrow>
             fst (AssignEnv H name v (Some k) a) = None
             \<and> LookupEnv H (snd (AssignEnv H name v (Some k) a)) name = (Some v, Some k)
             \<and> (\<forall>j. j \<noteq> k \<longrightarrow>
                   map_option vars (env_at (env (snd (AssignEnv H name v (Some k) a))) j)
                   = map_option vars (env_at (env a) j)))"
proof -
  have o: "name \<noteq> [quad]" "name \<noteq> quadIO" "name \<noteq> quadPP"
    using assms(3) by simp_all
  note r = AssignEnv_ordinary [OF assms(1) assms(2) o]
  have 1: "Assign H name v a = (None, a\<lparr>env := Env ((vars (env a))(name \<mapsto> v)) (parent (env a))\<rparr>)"
    using assms(4) by (simp add: Assign_def r)
  have 2: "fst (AssignEnv H name v (Some k) a) = None
       \<and> LookupEnv H (snd (AssignEnv H name v (Some k) a)) name = (Some v, Some k)
       \<and> (\<forall>j. j \<noteq> k \<longrightarrow>
             map_option vars (env_at (env (snd (AssignEnv H name v (Some k) a))) j)
             = map_option vars (env_at (env a) j))"
    if l: "LookupEnv H a name = (Some x, Some k)" for x k
  proof -
    have s: "AssignEnv H name v (Some k) a = (None, a\<lparr>env := env_store (env a) k name v\<rparr>)"
      using assms(4) by (simp add: r)
    from l have c: "lookup_chain (env a) name 0 = Some (x, k)"
      using o assms(2) by (auto simp add: LookupEnv_def split: option.splits)
    obtain ek where ek: "env_at (env a) k = Some ek"
      using lookup_chain_found [OF c] by blast
    have "LookupEnv H (a\<lparr>env := env_store (env a) k name v\<rparr>) name = (Some v, Some k)"
      using o assms(2) lookup_chain_after_store [OF c, of v] by (simp add: LookupEnv_def)
    then show ?thesis
      unfolding s using env_at_env_store_other [OF _ ek, of _ name v] by simp
  qed
  show ?thesis
    using 1 2 by blast
qed

theorem assign_writes_current_env_witness:
  "isVarname sample_host name_X = (True, is_Function (Number (apl_Int 2)))
   \<and> arrow \<notin> set name_X \<and> name_X \<notin> {[quad], quadIO, quadPP} \<and> name_X \<noteq> [alpha]
   \<and> LookupEnv sample_host scoped_apl name_X = (Some (Number (apl_Int 1)), Some 1)
   \<and> Assign sample_host name_X (Number (apl_Int 2)) scoped_apl =
       (None, scoped_apl\<lparr>env := Env [name_X \<mapsto> Number (apl_Int 2)] (Some outer_env)\<rparr>)
   \<and> LookupEnv sample_host
        (snd (AssignEnv sample_host name_X (Number (apl_Int 2)) (Some 1) scoped_apl)) name_X
       = (Some (Number (apl_Int 2)), Some 1)"
proof -
  have v: "isVarname sample_host name_X = (True, is_Function (Number (apl_Int 2)))"
    using sample_isVarname_X by simp
  have e: "env scoped_apl = Env Map.empty (Some outer_env)"
    by (simp add: scoped_apl_def)
  show ?thesis
    using assign_writes_current_env [OF v name_X_facts(1) name_X_facts(2) name_X_facts(3), of scoped_apl]
      v sample_lookup_scoped name_X_facts
    by (simp add: e)
qed

section \<open>Division never fails\<close>

lemma Div2_float:
  "Div2 rnd L (Number (BigFloat R)) =
     (if IsInf L then Some (numbers_Inf, True)
      else if IsInf R then Some (numbers_NaN, True)
      else if Sign L = 0 \<and> Sign R = 0 then Some (numbers_NaN, True)
      else if Sign L = 0 then Some (Number (BigFloat (Zero False)), True)
      else if Sign R = 0 then Some (numbers_Inf, True)
      else Some (Number (BigFloat (rnd (rat_of L / rat_of R))), True))"
  by (simp add: Div2_def Quo_def SetInt64_def Let_def)

lemma IsInf_Sign: "IsInf x \<Longrightarrow> Sign x \<noteq> 0"
  by (cases x) simp_all

text \<open>
  C4, as stated, fails: with L the zero and R the positive infinity, only L is
  zero, and Div2 returns the NaN sentinel and true, not a zero.
\<close>

theorem div2_zero_by_infinity_counterexample:
  "Sign (Zero False) = 0 \<and> Sign (Infinite False) \<noteq> 0
   \<and> Div2 Finite (Zero False) (Number (BigFloat (Infinite False))) = Some (numbers_NaN, True)
   \<and> numbers_NaN \<noteq> Number (BigFloat (Zero False))
   \<and> numbers_NaN \<noteq> Number (BigFloat (Zero True))"
  by (simp add: Div2_float numbers_NaN_def)

text \<open>
  C4, amended. For every pair of big floats L and R, Div2 returns a value and
  true, without a panic. When both are zero the result is the NaN sentinel;
  when only R is zero it is the infinity sentinel; when only L is zero and R is
  finite it is the zero; and when L is finite and R is infinite it is the NaN
  sentinel, also for the zero L.
\<close>

theorem div2_never_fails:
  "(\<exists>v. Div2 rnd L (Number (BigFloat R)) = Some (v, True))
   \<and> (Sign L = 0 \<and> Sign R = 0 \<longrightarrow> Div2 rnd L (Number (BigFloat R)) = Some (numbers_NaN, True))
   \<and> (Sign L \<noteq> 0 \<and> Sign R = 0 \<longrightarrow> Div2 rnd L (Number (BigFloat R)) = Some (numbers_Inf, True))
   \<and> (Sign L = 0 \<and> Sign R \<noteq> 0 \<and> \<not> IsInf R \<longrightarrow>
        Div2 rnd L (Number (BigFloat R)) = Some (Number (BigFloat (Zero False)), True))
   \<and> (\<not> IsInf L \<and> IsInf R \<longrightarrow> Div2 rnd L (Number (BigFloat R)) = Some (numbers_NaN, True))"
  using IsInf_Sign [of L] IsInf_Sign [of R] by (auto simp add: Div2_float)

theorem div2_never_fails_witness:
  "Div2 Finite (Zero False) (Number (BigFloat (Zero True))) = Some (numbers_NaN, True)
   \<and> Div2 Finite (Finite 3) (Number (BigFloat (Zero False))) = Some (numbers_Inf, True)
   \<and> Div2 Finite (Zero False) (Number (BigFloat (Finite 3))) = Some (Number (BigFloat (Zero False)), True)
   \<and> Div2 Finite (Finite 3) (Number (BigFloat (Infinite True))) = Some (numbers_NaN, True)"
  using div2_never_fails [of Finite "Zero False" "Zero True"]
    div2_never_fails [of Finite "Finite 3" "Zero False"]
    div2_never_fails [of Finite "Zero False" "Finite 3"]
    div2_never_fails [of Finite "Finite 3" "Infinite True"]
  by simp

section \<open>The default left argument\<close>

lemma isVarname_alpha:
  "scan_AllowedInVarname H alpha True \<Longrightarrow> isVarname H [alpha] = (True, False)"
  by (simp add: isVarname_def arrow_def alpha_def)

lemma alpha_facts:
  "[alpha] \<noteq> [omega]" "[omega] \<noteq> quadIO" "[omega] \<noteq> quadPP" "arrow \<notin> set [omega]"
  "[alpha] \<noteq> quadIO" "[alpha] \<noteq> quadPP" "arrow \<notin> set [alpha]" "[alpha] \<noteq> [quad]"
  by (simp_all add: alpha_def omega_def quadIO_def quadPP_def arrow_def quad_def)

lemma assign_alpha_frame:
  assumes "scan_AllowedInVarname H alpha True" and "\<not> is_Function d"
  shows "Assign H [alpha] d (lambda_frame a c (Some l) r) = (None, lambda_frame a c (Some l) r)"
    and "Assign H [alpha] d (lambda_frame a c None r) = (None, lambda_frame a c (Some d) r)"
  using assms(2) alpha_facts
    AssignEnv_ordinary [OF isVarname_alpha [OF assms(1)] alpha_facts(7) alpha_facts(8) alpha_facts(5)
      alpha_facts(6)]
  by (simp_all add: Assign_def lambda_frame_def fun_upd_twist)

lemma eval_in_frame:
  "numVar_Eval H (lambda_frame a c (Some l) r) [alpha] = (l, None)"
  "numVar_Eval H (lambda_frame a c L r) [omega] = (r, None)"
  using alpha_facts
  by (simp_all add: numVar_Eval_def Lookup_def LookupEnv_def lambda_frame_def)

text \<open>
  C6. In the frame of a lambda call, whatever environment the lambda captured,
  after the first statement of the body has assigned the default d (a value
  that is no Function) to alpha, the name alpha evaluates to the left operand
  when the caller gave one and to d when it gave none; the assignment returns
  no error in either call. For the lambda with the default 3 and the body
  alpha + omega, the call with the right operand 4 gives 7, and the call with
  the operands 1 and 4 gives 5. The scanner has to admit alpha as the first
  rune of a name.
\<close>

theorem default_left_argument:
  assumes "scan_AllowedInVarname H alpha True" and "\<not> is_Function d"
  shows "fst (Assign H [alpha] d (lambda_frame a c (Some l) r)) = None
       \<and> numVar_Eval H (snd (Assign H [alpha] d (lambda_frame a c (Some l) r))) [alpha] = (l, None)
       \<and> fst (Assign H [alpha] d (lambda_frame a c None r)) = None
       \<and> numVar_Eval H (snd (Assign H [alpha] d (lambda_frame a c None r))) [alpha] = (d, None)
       \<and> call_default_left H (Number (apl_Int 3)) a c None (Number (apl_Int 4))
           = Some (Number (apl_Int 7))
       \<and> call_default_left H (Number (apl_Int 3)) a c (Some (Number (apl_Int 1))) (Number (apl_Int 4))
           = Some (Number (apl_Int 5))"
proof -
  have n: "\<not> is_Function (Number (apl_Int 3))"
    by simp
  show ?thesis
    by (simp add: assign_alpha_frame [OF assms] assign_alpha_frame [OF assms(1) n] eval_in_frame
        call_default_left_def default_left_body_def)
qed

theorem default_left_argument_witness:
  "scan_AllowedInVarname sample_host alpha True \<and> \<not> is_Function (String [])
   \<and> numVar_Eval sample_host
        (snd (Assign sample_host [alpha] (String [])
               (lambda_frame new_apl root_env (Some (Number (Bool True))) EmptyArray)))
        [alpha] = (Number (Bool True), None)
   \<and> numVar_Eval sample_host
        (snd (Assign sample_host [alpha] (String []) (lambda_frame new_apl root_env None EmptyArray)))
        [alpha] = (String [], None)
   \<and> call_default_left sample_host (Number (apl_Int 3)) new_apl root_env None (Number (apl_Int 4))
        = Some (Number (apl_Int 7))
   \<and> call_default_left sample_host (Number (apl_Int 3)) new_apl root_env
        (Some (Number (apl_Int 1))) (Number (apl_Int 4))
        = Some (Number (apl_Int 5))"
proof -
  have h: "scan_AllowedInVarname sample_host alpha True"
    by (simp add: sample_host_def sample_AllowedInVarname_def)
  have d: "\<not> is_Function (String [])"
    by simp
  show ?thesis
    using default_left_argument [OF h d, of new_apl root_env "Number (Bool True)" EmptyArray] h
    by simp
qed

section \<open>Assignment through take\<close>

lemma lookup_after_assign_X:
  assumes "isVarname H name_X = (True, False)" and "\<not> is_Function v"
  shows "Assign H name_X v a = (None, a\<lparr>env := Env ((vars (env a))(name_X \<mapsto> v)) (parent (env a))\<rparr>)"
    and "LookupEnv H (a\<lparr>env := Env ((vars (env a))(name_X \<mapsto> v)) p\<rparr>) name_X = (Some v, Some 0)"
  using assms name_X_facts AssignEnv_ordinary [OF assms(1) name_X_facts(1), of v None a]
  by (simp_all add: Assign_def LookupEnv_def)

text \<open>
  C1. When X is a valid name of a value variable, evaluating X \<leftarrow> 10 20 30 40
  and then (2\<up>X) \<leftarrow> 100 200 returns no error, and X then evaluates to the
  vector 100 200 30 40: the cells written are the positions 0 and 1 of X, the
  first two, and the other cells are as they were.
\<close>

theorem take_selective_specification:
  assumes "isVarname H name_X = (True, False)"
  shows "fst (take_scenario H a) = None
       \<and> numVar_Eval H (snd (take_scenario H a)) name_X = (IntArray [4] [100, 200, 30, 40], None)
       \<and> take_selection 2 4 = [0, 1]"
proof -
  let ?v = "IntArray [4] [10, 20, 30, 40]"
  let ?w = "IntArray [4] [100, 200, 30, 40]"
  let ?a1 = "a\<lparr>env := Env ((vars (env a))(name_X \<mapsto> ?v)) (parent (env a))\<rparr>"
  have t: "take_selection 2 n = [0, 1]" for n
    by (simp add: take_selection_def upt_conv_Cons)
  have 1: "Assign H name_X ?v a = (None, ?a1)"
    using lookup_after_assign_X(1) [OF assms, of ?v a] by simp
  have 2: "LookupEnv H ?a1 name_X = (Some ?v, Some 0)"
    using lookup_after_assign_X(2) [OF assms, of ?v a] by simp
  have 3: "AssignEnv H name_X ?w (Some 0) ?a1 =
             (None, a\<lparr>env := Env ((vars (env a))(name_X \<mapsto> ?w)) (parent (env a))\<rparr>)"
    using name_X_facts AssignEnv_ordinary [OF assms name_X_facts(1), of ?w "Some 0" ?a1]
    by simp
  have 4: "selective_specification H name_X (take_selection 2) [100, 200] ?a1 =
             (None, a\<lparr>env := Env ((vars (env a))(name_X \<mapsto> ?w)) (parent (env a))\<rparr>)"
    by (simp add: selective_specification_def 2 t 3)
  have 5: "numVar_Eval H (a\<lparr>env := Env ((vars (env a))(name_X \<mapsto> ?w)) (parent (env a))\<rparr>) name_X
             = (?w, None)"
    using lookup_after_assign_X(2) [OF assms, of ?w a] by (simp add: numVar_Eval_def Lookup_def)
  show ?thesis
    by (simp add: take_scenario_def 1 4 5 t)
qed

theorem take_selective_specification_witness:
  "isVarname sample_host name_X = (True, False)
   \<and> fst (take_scenario sample_host new_apl) = None
   \<and> numVar_Eval sample_host (snd (take_scenario sample_host new_apl)) name_X
       = (IntArray [4] [100, 200, 30, 40], None)"
  using take_selective_specification [OF sample_isVarname_X, of new_apl] sample_isVarname_X
  by simp

end
